theory Spec2Isabelle
  imports Main
begin

section \<open>Outcomes and errors\<close>

text \<open>
  A Go function either returns or panics (a nil pointer dereference, a failed type
  assertion, an index out of range). A panic ends the handler: nothing is returned.
\<close>

datatype 'a outcome = Panic | Return 'a

text \<open>
  A Go \<open>error\<close> value is either an AWS API error (\<open>awserr.Error\<close>, with its code and
  message), some other error of the transport, or the result of \<open>fmt.Errorf\<close>: the format
  string with the arguments it was given. The text \<open>fmt.Errorf\<close> renders is not computed;
  what matters is that its result is a new error value that is no \<open>awserr.Error\<close> any more,
  and which error it wraps.
\<close>

datatype error =
    AWSErr string string
  | OtherErr string
  | Errorf string "arg list"
and arg =
    ArgS string
  | ArgE error

section \<open>The composite identifier of a VPC association authorization\<close>

text \<open>
  \<open>strings.Split(s, sep)\<close> for a separator of one byte, which is how the source calls it
  (\<open>":"\<close>): the substrings of \<open>s\<close> between the separators, in order. A string without
  the separator, the empty string included, gives one part.
\<close>

fun strings_Split :: "string \<Rightarrow> char \<Rightarrow> string list" where
  "strings_Split [] sep = [[]]"
| "strings_Split (x # xs) sep =
     (if x = sep then [] # strings_Split xs sep
      else (case strings_Split xs sep of
              [] \<Rightarrow> [[x]]
            | p # ps \<Rightarrow> (x # p) # ps))"

text \<open>The error \<open>ParseId\<close> returns: the format string of the source with the identifier.\<close>

definition unexpected_format :: "string \<Rightarrow> error" where
  "unexpected_format ident =
     Errorf ''Unexpected format of ID (%q), expected ZONEID:VPCID'' [ArgS ident]"

text \<open>
  The three results of the Go function are a triple; the error is \<open>None\<close> for \<open>nil\<close>.
  Go's \<open>||\<close> evaluates \<open>parts[1]\<close> only when \<open>len(parts) = 2\<close>.
\<close>

definition resourceAwsRoute53VPCAssociationAuthorizationParseId ::
    "string \<Rightarrow> string \<times> string \<times> error option" where
  "resourceAwsRoute53VPCAssociationAuthorizationParseId ident =
     (let parts = strings_Split ident (CHR '':'') in
      if length parts \<noteq> 2 \<or> parts ! 0 = [] \<or> parts ! 1 = []
      then ([], [], Some (unexpected_format ident))
      else (parts ! 0, parts ! 1, None))"

text \<open>\<open>fmt.Sprintf("%s:%s", zoneID, vpcID)\<close>, the identifier that Create stores.\<close>

definition Sprintf_id :: "string \<Rightarrow> string \<Rightarrow> string" where
  "Sprintf_id zoneID vpcID = zoneID @ '':'' @ vpcID"

section \<open>SDK values\<close>

text \<open>
  A Go pointer to a string or to an integer is an option: \<open>None\<close> is \<open>nil\<close>.
  \<open>aws.String\<close> and \<open>aws.Int64\<close> return a pointer to their argument, which is never
  nil; \<open>aws.StringValue\<close> and \<open>aws.Int64Value\<close> read a pointer and give the zero value
  for nil. Go's \<open>int\<close> and \<open>int64\<close> values are integers here: the code converts and
  compares them and does no arithmetic on them.
\<close>

definition aws_String :: "string \<Rightarrow> string option" where
  "aws_String s = Some s"

definition aws_StringValue :: "string option \<Rightarrow> string" where
  "aws_StringValue p = (case p of None \<Rightarrow> [] | Some s \<Rightarrow> s)"

definition aws_Int64 :: "int \<Rightarrow> int option" where
  "aws_Int64 n = Some n"

definition aws_Int64Value :: "int option \<Rightarrow> int" where
  "aws_Int64Value p = (case p of None \<Rightarrow> 0 | Some n \<Rightarrow> n)"

text \<open>\<open>route53.VPC\<close> and the inputs of the three Route 53 calls the handlers make.\<close>

record VPC =
  VPCId :: "string option"
  VPCRegion :: "string option"

record CreateVPCAssociationAuthorizationInput =
  Create_HostedZoneId :: "string option"
  Create_VPC :: "VPC option"

record DeleteVPCAssociationAuthorizationInput =
  Delete_HostedZoneId :: "string option"
  Delete_VPC :: "VPC option"

record ListVPCAssociationAuthorizationsInput =
  List_HostedZoneId :: "string option"
  List_MaxResults :: "string option"
  List_NextToken :: "string option"

text \<open>
  A remote call a handler issued; a handler returns its calls in order. The Route 53
  calls carry their input. The calls of the ECS client (create, describe, update tags)
  carry the name, the identifiers or the identifier they are about; the handlers that
  issue them (Create, Read and Update of the capacity provider) are not modelled.
\<close>

datatype api_call =
    CreateCall CreateVPCAssociationAuthorizationInput
  | ListCall ListVPCAssociationAuthorizationsInput
  | DeleteCall DeleteVPCAssociationAuthorizationInput
  | CreateCapacityProviderCall string
  | DescribeCapacityProvidersCall "string list"
  | EcsUpdateTagsCall string

text \<open>
  The Route 53 client. What the remote answers is not part of the repository, so each
  call is a parameter: the error it returns (\<open>None\<close> for nil) and, for the list call, the
  \<open>VPCs\<close> of its output, a slice of pointers. \<open>Validate\<close> is the SDK's check of a list
  input before it is sent, a parameter as well.
\<close>

record Route53 =
  CreateVPCAssociationAuthorization :: "CreateVPCAssociationAuthorizationInput \<Rightarrow> error option"
  ListVPCAssociationAuthorizations ::
    "ListVPCAssociationAuthorizationsInput \<Rightarrow> error + VPC option list"
  DeleteVPCAssociationAuthorization :: "DeleteVPCAssociationAuthorizationInput \<Rightarrow> error option"
  Validate :: "ListVPCAssociationAuthorizationsInput \<Rightarrow> error option"

text \<open>\<open>AWSClient\<close>, the \<open>meta\<close> every handler receives: the fields the handlers read.\<close>

record AWSClient =
  r53conn :: Route53
  region :: string
  partition :: string
  accountid :: string

text \<open>
  \<open>schema.ResourceData\<close>: the identifier, and the attributes of the resource's schema,
  each of the type the schema declares for it. \<open>d.Get\<close> reads a field, \<open>d.Set\<close> and
  \<open>d.SetId\<close> write one; \<open>d.Set\<close> of a string pointer stores the string it points to,
  and the empty string for nil.
\<close>

record ResourceData =
  Id :: string

record Route53ResourceData = ResourceData +
  zone_id :: string
  vpc_id :: string
  vpc_region :: string

record EcsResourceData = ResourceData +
  name :: string

definition ErrCodeNoSuchHostedZone :: string where
  "ErrCodeNoSuchHostedZone = ''NoSuchHostedZone''"

text \<open>\<open>strings.Contains\<close>: the second string occurs in the first.\<close>

fun has_prefix :: "string \<Rightarrow> string \<Rightarrow> bool" where
  "has_prefix s [] = True"
| "has_prefix [] (y # ys) = False"
| "has_prefix (x # xs) (y # ys) = (x = y \<and> has_prefix xs ys)"

fun strings_Contains :: "string \<Rightarrow> string \<Rightarrow> bool" where
  "strings_Contains [] sub = (sub = [])"
| "strings_Contains (x # xs) sub = (has_prefix (x # xs) sub \<or> strings_Contains xs sub)"

text \<open>
  Modelled from the spec: \<open>isAWSErr\<close> is a helper of package \<open>aws\<close> that the source
  file calls and does not define. It tells the remote's "not found" answers from other
  errors: true when the error is an AWS API error with the given code whose message
  contains the given text, false for nil and for every other error.
\<close>

definition isAWSErr :: "error option \<Rightarrow> string \<Rightarrow> string \<Rightarrow> bool" where
  "isAWSErr err code msg =
     (case err of
        Some (AWSErr c m) \<Rightarrow> c = code \<and> strings_Contains m msg
      | _ \<Rightarrow> False)"

section \<open>Lookup by scan\<close>

text \<open>
  The loop over \<open>output.VPCs\<close>: the first entry whose \<open>VPCId\<close>, read with
  \<open>aws.StringValue\<close>, is the target. Reading the field of a nil entry panics.
\<close>

fun scan_VPCs :: "string \<Rightarrow> VPC option list \<Rightarrow> VPC option outcome" where
  "scan_VPCs vpcID [] = Return None"
| "scan_VPCs vpcID (zoneVPC # rest) =
     (case zoneVPC of
        None \<Rightarrow> Panic
      | Some v \<Rightarrow>
          if vpcID = aws_StringValue (VPCId v) then Return (Some v)
          else scan_VPCs vpcID rest)"

text \<open>
  The results are the entry found (\<open>None\<close> for nil), the error, and the calls issued.
  The validation error is wrapped together with the printed input, which stands here as
  the zone identifier the input was built from.
\<close>

definition route53GetVPCAssociation ::
    "Route53 \<Rightarrow> string \<Rightarrow> string \<Rightarrow> (VPC option \<times> error option \<times> api_call list) outcome" where
  "route53GetVPCAssociation conn zoneID vpcID =
     (let input = \<lparr>List_HostedZoneId = aws_String zoneID,
                    List_MaxResults = None, List_NextToken = None\<rparr>
      in case Validate conn input of
           Some err \<Rightarrow>
             Return (None,
               Some (Errorf ''Bad input %s for List VPC Association Authorizations: %s''
                       [ArgS zoneID, ArgE err]),
               [])
         | None \<Rightarrow>
             (case ListVPCAssociationAuthorizations conn input of
                Inl err \<Rightarrow> Return (None, Some err, [ListCall input])
              | Inr vpcs \<Rightarrow>
                  (case scan_VPCs vpcID vpcs of
                     Panic \<Rightarrow> Panic
                   | Return vpc \<Rightarrow> Return (vpc, None, [ListCall input]))))"

section \<open>The handlers of the VPC association authorization\<close>

text \<open>
  A handler returns the resource data as it left it, the remote calls it issued, and its
  error. Logging is left out.
\<close>

type_synonym r53_result = "(Route53ResourceData \<times> api_call list \<times> error option) outcome"

definition resourceAwsRoute53CreateVPCAssociationAuthorizationRead ::
    "Route53ResourceData \<Rightarrow> AWSClient \<Rightarrow> r53_result" where
  "resourceAwsRoute53CreateVPCAssociationAuthorizationRead d meta =
     (let conn = r53conn meta in
      case resourceAwsRoute53VPCAssociationAuthorizationParseId (Id d) of
        (zoneID, vpcID, Some err) \<Rightarrow> Return (d, [], Some err)
      | (zoneID, vpcID, None) \<Rightarrow>
          (case route53GetVPCAssociation conn zoneID vpcID of
             Panic \<Rightarrow> Panic
           | Return (vpc, err, calls) \<Rightarrow>
               if isAWSErr err ErrCodeNoSuchHostedZone []
               then Return (d\<lparr>Id := []\<rparr>, calls, None)
               else (case err of
                       Some e \<Rightarrow>
                         Return (d, calls,
                           Some (Errorf
                             ''error getting Route 53 VPC (%s) Association Authorization for Hosted Zone (%s): %s''
                             [ArgS vpcID, ArgS zoneID, ArgE e]))
                     | None \<Rightarrow>
                         (case vpc of
                            None \<Rightarrow> Return (d\<lparr>Id := []\<rparr>, calls, None)
                          | Some v \<Rightarrow>
                              Return (d\<lparr>vpc_id := aws_StringValue (VPCId v),
                                        vpc_region := aws_StringValue (VPCRegion v),
                                        zone_id := zoneID\<rparr>,
                                      calls, None)))))"

text \<open>
  Create builds the input, overrides the region, calls the remote and, when that
  succeeded, sets the identifier from the pointers of the input and goes on with Read;
  the calls of Read follow its own.
\<close>

definition create_input :: "Route53ResourceData \<Rightarrow> AWSClient \<Rightarrow> CreateVPCAssociationAuthorizationInput" where
  "create_input d meta =
     (let input = \<lparr>Create_HostedZoneId = aws_String (zone_id d),
                    Create_VPC = Some \<lparr>VPCId = aws_String (vpc_id d),
                                       VPCRegion = aws_String (region meta)\<rparr>\<rparr>
      in if vpc_region d \<noteq> []
         then input\<lparr>Create_VPC :=
                map_option (\<lambda>vpc. vpc\<lparr>VPCRegion := aws_String (vpc_region d)\<rparr>) (Create_VPC input)\<rparr>
         else input)"

definition resourceAwsRoute53CreateVPCAssociationAuthorizationCreate ::
    "Route53ResourceData \<Rightarrow> AWSClient \<Rightarrow> r53_result" where
  "resourceAwsRoute53CreateVPCAssociationAuthorizationCreate d meta =
     (let conn = r53conn meta;
          input = create_input d meta
      in case CreateVPCAssociationAuthorization conn input of
           Some err \<Rightarrow>
             Return (d, [CreateCall input],
               Some (Errorf ''Error creating VPC Association Authorization: %s'' [ArgE err]))
         | None \<Rightarrow>
             (case (Create_HostedZoneId input, Create_VPC input) of
                (Some zoneID, Some vpc) \<Rightarrow>
                  (case VPCId vpc of
                     Some vpcID \<Rightarrow>
                       (case resourceAwsRoute53CreateVPCAssociationAuthorizationRead
                               (d\<lparr>Id := Sprintf_id zoneID vpcID\<rparr>) meta of
                          Panic \<Rightarrow> Panic
                        | Return (d', calls, err) \<Rightarrow> Return (d', CreateCall input # calls, err))
                   | None \<Rightarrow> Panic)
              | _ \<Rightarrow> Panic))"

text \<open>Delete assigns the error of the remote call to \<open>err\<close> and returns nil.\<close>

definition resourceAwsRoute53CreateVPCAssociationAuthorizationDelete ::
    "Route53ResourceData \<Rightarrow> AWSClient \<Rightarrow> r53_result" where
  "resourceAwsRoute53CreateVPCAssociationAuthorizationDelete d meta =
     (let conn = r53conn meta in
      case resourceAwsRoute53VPCAssociationAuthorizationParseId (Id d) of
        (zoneID, vpcID, Some err) \<Rightarrow> Return (d, [], Some err)
      | (zoneID, vpcID, None) \<Rightarrow>
          (let input = \<lparr>Delete_HostedZoneId = aws_String zoneID,
                         Delete_VPC = Some \<lparr>VPCId = aws_String vpcID,
                                            VPCRegion = aws_String (vpc_region d)\<rparr>\<rparr>;
               err = DeleteVPCAssociationAuthorization conn input
           in Return (d, [DeleteCall input], None)))"

text \<open>
  How the plugin SDK refreshes a tracked resource (\<open>Resource.Refresh\<close>), which is how
  Read is called on a resource that is already in the state: a resource whose identifier
  is blank does not exist, and Read is not called on it; otherwise Read runs, and a
  resource that Read left with a blank identifier is dropped from the state. The error
  of Read is returned as it is.
\<close>

definition Refresh ::
    "(Route53ResourceData \<Rightarrow> AWSClient \<Rightarrow> r53_result) \<Rightarrow> Route53ResourceData \<Rightarrow> AWSClient
       \<Rightarrow> (Route53ResourceData option \<times> api_call list \<times> error option) outcome" where
  "Refresh read s meta =
     (if Id s = [] then Return (None, [], None)
      else (case read s meta of
              Panic \<Rightarrow> Panic
            | Return (d, calls, err) \<Rightarrow>
                Return (if Id d = [] then None else Some d, calls, err)))"

section \<open>The ECS capacity provider\<close>

text \<open>
  \<open>schema.Noop\<close> of the plugin SDK, which the resource installs as its Delete: it does
  nothing and returns nil.
\<close>

definition schema_Noop :: "EcsResourceData \<Rightarrow> AWSClient \<Rightarrow> (EcsResourceData \<times> api_call list \<times> error option) outcome" where
  "schema_Noop d meta = Return (d, [], None)"

text \<open>\<open>arn.ARN\<close> of the SDK and its \<open>String\<close> method.\<close>

record ARN =
  Partition :: string
  Service :: string
  Region :: string
  AccountID :: string
  Resource :: string

definition ARN_String :: "ARN \<Rightarrow> string" where
  "ARN_String a =
     ''arn:'' @ Partition a @ '':'' @ Service a @ '':'' @ Region a @ '':'' @ AccountID a
       @ '':'' @ Resource a"

text \<open>
  The import handler: \<open>d.Set("name", d.Id())\<close>, then \<open>d.SetId\<close> of the ARN, whose
  resource part is built from the identifier as it still is. It returns the one resource
  and a nil error.
\<close>

definition resourceAwsEcsCapacityProviderImport ::
    "EcsResourceData \<Rightarrow> AWSClient \<Rightarrow> (EcsResourceData list \<times> api_call list \<times> error option) outcome" where
  "resourceAwsEcsCapacityProviderImport d meta =
     (let d1 = d\<lparr>name := Id d\<rparr>;
          d2 = d1\<lparr>Id := ARN_String
                  \<lparr>Partition = partition meta,
                   Service = ''ecs'',
                   Region = region meta,
                   AccountID = accountid meta,
                   Resource = ''capacity-provider/'' @ Id d1\<rparr>\<rparr>
      in Return ([d2], [], None))"

text \<open>
  The resource as \<open>resourceAwsEcsCapacityProvider\<close> declares it: the Delete and the
  importer it installs. (Create, Read and Update are handlers of their own.)
\<close>

record EcsResource =
  Delete :: "EcsResourceData \<Rightarrow> AWSClient \<Rightarrow> (EcsResourceData \<times> api_call list \<times> error option) outcome"
  Importer_State ::
    "EcsResourceData \<Rightarrow> AWSClient \<Rightarrow> (EcsResourceData list \<times> api_call list \<times> error option) outcome"

definition resourceAwsEcsCapacityProvider :: EcsResource where
  "resourceAwsEcsCapacityProvider =
     \<lparr>Delete = schema_Noop, Importer_State = resourceAwsEcsCapacityProviderImport\<rparr>"

text \<open>
  What the plugin SDK does with a resource that is to be destroyed and not replaced
  (\<open>Resource.Apply\<close>): it calls Delete; on an error the resource stays in the state,
  otherwise the new state is nil, the resource is no longer tracked.
\<close>

definition Apply_destroy ::
    "EcsResource \<Rightarrow> EcsResourceData \<Rightarrow> AWSClient \<Rightarrow> (EcsResourceData option \<times> api_call list \<times> error option) outcome" where
  "Apply_destroy r d meta =
     (case Delete r d meta of
        Panic \<Rightarrow> Panic
      | Return (d', calls, Some err) \<Rightarrow> Return (Some d', calls, Some err)
      | Return (d', calls, None) \<Rightarrow> Return (None, calls, None))"

section \<open>Expanding and flattening the auto scaling group provider\<close>

text \<open>
  A value of Go's \<open>interface{}\<close>, as far as the two functions meet them: nil, a string,
  an \<open>int\<close>, an \<open>int64\<close>, a \<open>[]interface{}\<close>, a \<open>map[string]interface{}\<close> and a
  \<open>[]map[string]interface{}\<close>. A type assertion succeeds on the one constructor of its
  type. Reading a key that a map does not have gives nil.
\<close>

datatype val =
    VNil
  | VStr string
  | VInt int
  | VInt64 int
  | VList "val list"
  | VMap "string \<Rightarrow> val option"
  | VMapSlice "(string \<Rightarrow> val option) list"

record ManagedScaling =
  MaximumScalingStepSize :: "int option"
  MinimumScalingStepSize :: "int option"
  Status :: "string option"
  TargetCapacity :: "int option"

record AutoScalingGroupProvider =
  AutoScalingGroupArn :: "string option"
  ManagedScaling :: "ManagedScaling option"
  ManagedTerminationProtection :: "string option"

text \<open>\<open>m[k]\<close> on a \<open>map[string]interface{}\<close>.\<close>

definition index_map :: "(string \<Rightarrow> val option) \<Rightarrow> string \<Rightarrow> val" where
  "index_map m k = (case m k of None \<Rightarrow> VNil | Some v \<Rightarrow> v)"

text \<open>
  The two guarded leaves of expand: \<open>if val, ok := x.(int); ok && val != 0\<close> and
  \<open>if val, ok := x.(string); ok && len(val) > 0\<close>.
\<close>

definition nonzero_int :: "val \<Rightarrow> int option" where
  "nonzero_int x = (case x of VInt n \<Rightarrow> if n \<noteq> 0 then aws_Int64 n else None | _ \<Rightarrow> None)"

definition nonempty_string :: "val \<Rightarrow> string option" where
  "nonempty_string x =
     (case x of VStr s \<Rightarrow> if length s > 0 then aws_String s else None | _ \<Rightarrow> None)"

text \<open>
  The type assertions with one result panic when they fail: on \<open>configured\<close>, on its
  first element (which an empty list does not have), and on the three entries of the
  block that are read without \<open>ok\<close>.
\<close>

definition expandAutoScalingGroupProvider :: "val \<Rightarrow> AutoScalingGroupProvider option outcome" where
  "expandAutoScalingGroupProvider configured =
     (case configured of
        VList (VMap p # _) \<Rightarrow>
          (case index_map p ''auto_scaling_group_arn'' of
             VStr arn \<Rightarrow>
               (case index_map p ''managed_termination_protection'' of
                  VStr mtp \<Rightarrow>
                    (case index_map p ''managed_scaling'' of
                       VList val \<Rightarrow>
                         Return (Some
                           \<lparr>AutoScalingGroupArn = aws_String arn,
                            ManagedScaling =
                              (case val of
                                 VMap ms # _ \<Rightarrow>
                                   Some \<lparr>MaximumScalingStepSize =
                                            nonzero_int (index_map ms ''maximum_scaling_step_size''),
                                         MinimumScalingStepSize =
                                            nonzero_int (index_map ms ''minimum_scaling_step_size''),
                                         Status = nonempty_string (index_map ms ''status''),
                                         TargetCapacity =
                                            nonzero_int (index_map ms ''target_capacity'')\<rparr>
                               | _ \<Rightarrow> None),
                            ManagedTerminationProtection =
                              (if length mtp > 0 then aws_String mtp else None)\<rparr>)
                     | _ \<Rightarrow> Panic)
                | _ \<Rightarrow> Panic)
           | _ \<Rightarrow> Panic)
      | _ \<Rightarrow> Panic)"

text \<open>
  Flatten returns nil for a nil provider. Otherwise it reads the four fields of
  \<open>provider.ManagedScaling\<close>, which panics when that pointer is nil.
\<close>

definition flattenAutoScalingGroupProvider ::
    "AutoScalingGroupProvider option \<Rightarrow> (string \<Rightarrow> val option) list option outcome" where
  "flattenAutoScalingGroupProvider provider =
     (case provider of
        None \<Rightarrow> Return None
      | Some prov \<Rightarrow>
          (let p = Map.empty;
               p = p(''auto_scaling_group_arn'' \<mapsto> VStr (aws_StringValue (AutoScalingGroupArn prov)));
               p = p(''managed_termination_protection'' \<mapsto>
                       VStr (aws_StringValue (ManagedTerminationProtection prov)))
           in case ManagedScaling prov of
                None \<Rightarrow> Panic
              | Some m \<Rightarrow>
                  (let ms = Map.empty;
                       ms = ms(''maximum_scaling_step_size'' \<mapsto>
                                 VInt64 (aws_Int64Value (MaximumScalingStepSize m)));
                       ms = ms(''minimum_scaling_step_size'' \<mapsto>
                                 VInt64 (aws_Int64Value (MinimumScalingStepSize m)));
                       ms = ms(''status'' \<mapsto> VStr (aws_StringValue (Status m)));
                       ms = ms(''target_capacity'' \<mapsto> VInt64 (aws_Int64Value (TargetCapacity m)));
                       msl = [] @ [ms];
                       p = p(''managed_scaling'' \<mapsto> VMapSlice msl)
                   in Return (Some ([] @ [p])))))"

section \<open>Example remotes\<close>

text \<open>
  A remote that gives the same answer to every create, list and delete call, behind a
  client whose validation accepts every input; and the client context of account
  \<open>123456789012\<close> in \<open>us-east-1\<close>. They are the concrete inputs of the examples below.
\<close>

definition answering :: "error option \<Rightarrow> error + VPC option list \<Rightarrow> error option \<Rightarrow> Route53" where
  "answering created listed deleted =
     \<lparr>CreateVPCAssociationAuthorization = (\<lambda>_. created),
      ListVPCAssociationAuthorizations = (\<lambda>_. listed),
      DeleteVPCAssociationAuthorization = (\<lambda>_. deleted),
      Validate = (\<lambda>_. None)\<rparr>"

definition client :: "Route53 \<Rightarrow> AWSClient" where
  "client conn =
     \<lparr>r53conn = conn, region = ''us-east-1'', partition = ''aws'',
      accountid = ''123456789012''\<rparr>"

definition list_input :: "string \<Rightarrow> ListVPCAssociationAuthorizationsInput" where
  "list_input zoneID =
     \<lparr>List_HostedZoneId = Some zoneID, List_MaxResults = None, List_NextToken = None\<rparr>"

text \<open>
  A configured block with a managed scaling block whose \<open>minimum_scaling_step_size\<close>
  and \<open>target_capacity\<close> are unset, as \<open>d.Get\<close> hands it over (zero values), and a
  provider as the remote describes it.
\<close>

definition example_scaling :: "string \<Rightarrow> val option" where
  "example_scaling =
     [''maximum_scaling_step_size'' \<mapsto> VInt 10,
      ''minimum_scaling_step_size'' \<mapsto> VInt 0,
      ''status'' \<mapsto> VStr ''ENABLED'',
      ''target_capacity'' \<mapsto> VInt 0]"

definition example_block :: "string \<Rightarrow> val option" where
  "example_block =
     [''auto_scaling_group_arn'' \<mapsto> VStr ''arn:aws:autoscaling:us-east-1:123456789012:asg/x'',
      ''managed_termination_protection'' \<mapsto> VStr [],
      ''managed_scaling'' \<mapsto> VList [VMap example_scaling]]"

definition example_response :: AutoScalingGroupProvider where
  "example_response =
     \<lparr>AutoScalingGroupArn = Some ''arn:aws:autoscaling:us-east-1:123456789012:asg/x'',
      ManagedScaling =
        Some \<lparr>MaximumScalingStepSize = Some 10000, MinimumScalingStepSize = Some 1,
              Status = Some ''ENABLED'', TargetCapacity = Some 100\<rparr>,
      ManagedTerminationProtection = Some ''DISABLED''\<rparr>"

section \<open>Properties of the identifier codec\<close>

lemma Split_not_Nil: "strings_Split s c \<noteq> []"
  by (induction s) (auto split: list.splits)

lemma Split_no_sep: "c \<notin> set a \<Longrightarrow> strings_Split a c = [a]"
  by (induction a) auto

lemma Split_append_sep:
  "c \<notin> set a \<Longrightarrow> strings_Split (a @ c # r) c = a # strings_Split r c"
  by (induction a) auto

lemma Split_length: "length (strings_Split s c) = Suc (count_list s c)"
proof (induction s)
  case Nil
  show ?case by simp
next
  case (Cons x xs)
  obtain p ps where "strings_Split xs c = p # ps"
    using Split_not_Nil [of xs c] by (cases "strings_Split xs c") auto
  with Cons show ?case by auto
qed

lemma Split_singleton: "strings_Split s c = [a] \<Longrightarrow> s = a \<and> c \<notin> set a"
proof (induction s arbitrary: a)
  case Nil
  then show ?case by simp
next
  case (Cons x xs)
  show ?case
  proof (cases "x = c")
    case True
    with Cons.prems Split_not_Nil [of xs c] show ?thesis by simp
  next
    case False
    with Cons.prems Split_not_Nil [of xs c]
    obtain p where p: "strings_Split xs c = [p]" "a = x # p"
      by (auto split: list.splits)
    from Cons.IH [OF p(1)] p(2) False show ?thesis by auto
  qed
qed

lemma Split_two:
  "strings_Split s c = [a, b] \<Longrightarrow> s = a @ c # b \<and> c \<notin> set a \<and> c \<notin> set b"
proof (induction s arbitrary: a)
  case Nil
  then show ?case by simp
next
  case (Cons x xs)
  show ?case
  proof (cases "x = c")
    case True
    with Cons.prems have "a = []" "strings_Split xs c = [b]" by auto
    with Split_singleton [of xs c b] True show ?thesis by simp
  next
    case False
    with Cons.prems Split_not_Nil [of xs c]
    obtain p where p: "strings_Split xs c = [p, b]" "a = x # p"
      by (auto split: list.splits)
    from Cons.IH [OF p(1)] p(2) False show ?thesis by auto
  qed
qed

lemma ParseId_ok:
  assumes "a \<noteq> []" "b \<noteq> []" "CHR '':'' \<notin> set a" "CHR '':'' \<notin> set b"
  shows "resourceAwsRoute53VPCAssociationAuthorizationParseId (a @ CHR '':'' # b) = (a, b, None)"
proof -
  have "strings_Split (a @ CHR '':'' # b) (CHR '':'') = [a, b]"
    using assms by (simp add: Split_append_sep Split_no_sep)
  with assms show ?thesis
    by (simp add: resourceAwsRoute53VPCAssociationAuthorizationParseId_def)
qed

lemma ParseId_None:
  assumes "resourceAwsRoute53VPCAssociationAuthorizationParseId ident = (z, v, None)"
  shows "ident = z @ CHR '':'' # v \<and> z \<noteq> [] \<and> v \<noteq> [] \<and>
         CHR '':'' \<notin> set z \<and> CHR '':'' \<notin> set v"
proof -
  let ?parts = "strings_Split ident (CHR '':'')"
  from assms have len: "length ?parts = 2" and ne: "?parts ! 0 \<noteq> []" "?parts ! 1 \<noteq> []"
    and zv: "z = ?parts ! 0" "v = ?parts ! 1"
    by (auto simp: resourceAwsRoute53VPCAssociationAuthorizationParseId_def Let_def
             split: if_splits)
  from len obtain p q where pq: "?parts = [p, q]"
    by (cases ?parts) (auto simp: length_Suc_conv)
  with zv have "z = p" "v = q" by simp_all
  with pq ne Split_two [of ident "CHR '':''" p q] show ?thesis by simp
qed

lemma ParseId_cases:
  "resourceAwsRoute53VPCAssociationAuthorizationParseId ident = ([], [], Some (unexpected_format ident))
   \<or> (\<exists>z v. resourceAwsRoute53VPCAssociationAuthorizationParseId ident = (z, v, None))"
  by (simp add: resourceAwsRoute53VPCAssociationAuthorizationParseId_def Let_def)

text \<open>
  C1. Identifier round trip: for all non-empty strings \<open>a\<close> and \<open>b\<close> without \<open>:\<close>,
  decoding the identifier that Create builds from them, \<open>a:b\<close>, returns \<open>a\<close> and \<open>b\<close> and
  no error.
\<close>

theorem ParseId_roundtrip:
  assumes "a \<noteq> []" and "b \<noteq> []" and "CHR '':'' \<notin> set a" and "CHR '':'' \<notin> set b"
  shows "resourceAwsRoute53VPCAssociationAuthorizationParseId (Sprintf_id a b) = (a, b, None)"
  using ParseId_ok [OF assms] by (simp add: Sprintf_id_def)

theorem ParseId_roundtrip_witness:
  "''Z1'' \<noteq> [] \<and> ''vpc-1'' \<noteq> [] \<and> CHR '':'' \<notin> set ''Z1'' \<and> CHR '':'' \<notin> set ''vpc-1''
   \<and> Sprintf_id ''Z1'' ''vpc-1'' = ''Z1:vpc-1''
   \<and> resourceAwsRoute53VPCAssociationAuthorizationParseId (Sprintf_id ''Z1'' ''vpc-1'')
        = (''Z1'', ''vpc-1'', None)"
  using ParseId_roundtrip [of "''Z1''" "''vpc-1''"] by (simp add: Sprintf_id_def)

lemma ParseId_reject_iff:
  "(resourceAwsRoute53VPCAssociationAuthorizationParseId ident
      = ([], [], Some (unexpected_format ident)))
   = (\<not> (\<exists>a b. a \<noteq> [] \<and> b \<noteq> [] \<and> CHR '':'' \<notin> set a \<and> CHR '':'' \<notin> set b
              \<and> ident = a @ '':'' @ b))"
    (is "(?P ident = _) = (\<not> ?wf)")
proof
  assume rej: "?P ident = ([], [], Some (unexpected_format ident))"
  show "\<not> ?wf"
  proof
    assume ?wf
    then obtain a b where "a \<noteq> []" "b \<noteq> []" "CHR '':'' \<notin> set a" "CHR '':'' \<notin> set b"
      and "ident = a @ CHR '':'' # b" by auto
    with ParseId_ok [of a b] rej show False by simp
  qed
next
  assume nwf: "\<not> ?wf"
  show "?P ident = ([], [], Some (unexpected_format ident))"
  proof (rule ccontr)
    assume "?P ident \<noteq> ([], [], Some (unexpected_format ident))"
    with ParseId_cases [of ident] obtain z v where "?P ident = (z, v, None)" by blast
    from ParseId_None [OF this] nwf show False by auto
  qed
qed

lemma ParseId_reject_many:
  "1 < count_list ident (CHR '':'') \<Longrightarrow>
     resourceAwsRoute53VPCAssociationAuthorizationParseId ident
       = ([], [], Some (unexpected_format ident))"
  by (simp add: resourceAwsRoute53VPCAssociationAuthorizationParseId_def Split_length)

lemma ParseId_reject_examples:
  "resourceAwsRoute53VPCAssociationAuthorizationParseId []
       = ([], [], Some (unexpected_format []))"
  "resourceAwsRoute53VPCAssociationAuthorizationParseId ''onlyonepart''
       = ([], [], Some (unexpected_format ''onlyonepart''))"
  "resourceAwsRoute53VPCAssociationAuthorizationParseId '':missingzone''
       = ([], [], Some (unexpected_format '':missingzone''))"
  "resourceAwsRoute53VPCAssociationAuthorizationParseId ''missingvpc:''
       = ([], [], Some (unexpected_format ''missingvpc:''))"
  by (simp_all add: resourceAwsRoute53VPCAssociationAuthorizationParseId_def)

text \<open>
  C2. Identifier rejection: \<open>ParseId\<close> returns the format error, with empty results,
  exactly for the inputs that are not two non-empty parts around one \<open>:\<close>. So an input
  with more than one \<open>:\<close> is rejected, not cut short, and the empty string,
  \<open>onlyonepart\<close>, \<open>:missingzone\<close> and \<open>missingvpc:\<close> are rejected.
\<close>

theorem ParseId_rejection:
  "((resourceAwsRoute53VPCAssociationAuthorizationParseId ident
       = ([], [], Some (unexpected_format ident)))
    = (\<not> (\<exists>a b. a \<noteq> [] \<and> b \<noteq> [] \<and> CHR '':'' \<notin> set a \<and> CHR '':'' \<notin> set b
               \<and> ident = a @ '':'' @ b)))
   \<and> (1 < count_list ident (CHR '':'') \<longrightarrow>
        resourceAwsRoute53VPCAssociationAuthorizationParseId ident
          = ([], [], Some (unexpected_format ident)))
   \<and> resourceAwsRoute53VPCAssociationAuthorizationParseId []
        = ([], [], Some (unexpected_format []))
   \<and> resourceAwsRoute53VPCAssociationAuthorizationParseId ''onlyonepart''
        = ([], [], Some (unexpected_format ''onlyonepart''))
   \<and> resourceAwsRoute53VPCAssociationAuthorizationParseId '':missingzone''
        = ([], [], Some (unexpected_format '':missingzone''))
   \<and> resourceAwsRoute53VPCAssociationAuthorizationParseId ''missingvpc:''
        = ([], [], Some (unexpected_format ''missingvpc:''))"
  using ParseId_reject_iff [of ident] ParseId_reject_many [of ident] ParseId_reject_examples
  by blast

theorem ParseId_rejection_witness:
  "1 < count_list ''Z1:V1:x'' (CHR '':'')
   \<and> resourceAwsRoute53VPCAssociationAuthorizationParseId ''Z1:V1:x''
        = ([], [], Some (unexpected_format ''Z1:V1:x''))
   \<and> \<not> (\<exists>a b. a \<noteq> [] \<and> b \<noteq> [] \<and> CHR '':'' \<notin> set a \<and> CHR '':'' \<notin> set b
              \<and> ''Z1:V1:x'' = a @ '':'' @ b)"
proof -
  have many: "1 < count_list ''Z1:V1:x'' (CHR '':'')" by simp
  with ParseId_rejection [of "''Z1:V1:x''"] show ?thesis by blast
qed

section \<open>Properties of the lookup\<close>

lemma scan_VPCs_none:
  "\<forall>v\<in>set vpcs. aws_StringValue (VPCId v) \<noteq> vpcID \<Longrightarrow>
     scan_VPCs vpcID (map Some vpcs) = Return None"
  by (induction vpcs) auto

lemma scan_VPCs_first:
  "\<forall>u\<in>set pre. aws_StringValue (VPCId u) \<noteq> vpcID \<Longrightarrow> aws_StringValue (VPCId v) = vpcID \<Longrightarrow>
     scan_VPCs vpcID (map Some (pre @ v # post)) = Return (Some v)"
  by (induction pre) auto

lemma route53GetVPCAssociation_listed:
  assumes "Validate conn (list_input zoneID) = None"
    and "ListVPCAssociationAuthorizations conn (list_input zoneID) = Inr vpcs"
  shows "route53GetVPCAssociation conn zoneID vpcID =
     (case scan_VPCs vpcID vpcs of
        Panic \<Rightarrow> Panic
      | Return vpc \<Rightarrow> Return (vpc, None, [ListCall (list_input zoneID)]))"
  using assms
  by (simp add: route53GetVPCAssociation_def list_input_def aws_String_def split: outcome.splits)

lemma route53GetVPCAssociation_failed:
  assumes "Validate conn (list_input zoneID) = None"
    and "ListVPCAssociationAuthorizations conn (list_input zoneID) = Inl e"
  shows "route53GetVPCAssociation conn zoneID vpcID =
     Return (None, Some e, [ListCall (list_input zoneID)])"
  using assms by (simp add: route53GetVPCAssociation_def list_input_def aws_String_def)

text \<open>
  C3. Lookup by scan: when the list input passes validation, \<open>route53GetVPCAssociation\<close>
  issues the one list call and, of the entries the remote returned, returns the first
  whose \<open>VPCId\<close> (read with \<open>aws.StringValue\<close>) is the target, with a nil error; for a
  non-empty target that entry's \<open>VPCId\<close> is the target itself. When no entry matches it
  returns a nil entry and a nil error. An error of the list call is returned as it is,
  with a nil entry: not found and a transport error are different results.
\<close>

theorem route53GetVPCAssociation_scan:
  assumes "Validate conn (list_input zoneID) = None"
  shows
    "(ListVPCAssociationAuthorizations conn (list_input zoneID) = Inr (map Some (pre @ v # post))
        \<and> (\<forall>u\<in>set pre. aws_StringValue (VPCId u) \<noteq> vpcID)
        \<and> aws_StringValue (VPCId v) = vpcID
      \<longrightarrow> route53GetVPCAssociation conn zoneID vpcID
            = Return (Some v, None, [ListCall (list_input zoneID)])
          \<and> (vpcID \<noteq> [] \<longrightarrow> VPCId v = Some vpcID))
   \<and> (ListVPCAssociationAuthorizations conn (list_input zoneID) = Inr (map Some vpcs)
        \<and> (\<forall>u\<in>set vpcs. aws_StringValue (VPCId u) \<noteq> vpcID)
      \<longrightarrow> route53GetVPCAssociation conn zoneID vpcID
            = Return (None, None, [ListCall (list_input zoneID)]))
   \<and> (ListVPCAssociationAuthorizations conn (list_input zoneID) = Inl e
      \<longrightarrow> route53GetVPCAssociation conn zoneID vpcID
            = Return (None, Some e, [ListCall (list_input zoneID)]))"
proof (intro conjI impI)
  assume h: "ListVPCAssociationAuthorizations conn (list_input zoneID) = Inr (map Some (pre @ v # post))
        \<and> (\<forall>u\<in>set pre. aws_StringValue (VPCId u) \<noteq> vpcID)
        \<and> aws_StringValue (VPCId v) = vpcID"
  then have "scan_VPCs vpcID (map Some (pre @ v # post)) = Return (Some v)"
    using scan_VPCs_first [of pre vpcID v post] by blast
  with h route53GetVPCAssociation_listed [OF assms, of "map Some (pre @ v # post)" vpcID]
  show "route53GetVPCAssociation conn zoneID vpcID
            = Return (Some v, None, [ListCall (list_input zoneID)])" by simp
  assume "vpcID \<noteq> []"
  with h show "VPCId v = Some vpcID"
    by (auto simp: aws_StringValue_def split: option.splits)
next
  assume h: "ListVPCAssociationAuthorizations conn (list_input zoneID) = Inr (map Some vpcs)
        \<and> (\<forall>u\<in>set vpcs. aws_StringValue (VPCId u) \<noteq> vpcID)"
  then have "scan_VPCs vpcID (map Some vpcs) = Return None"
    using scan_VPCs_none [of vpcs vpcID] by blast
  with h route53GetVPCAssociation_listed [OF assms, of "map Some vpcs" vpcID]
  show "route53GetVPCAssociation conn zoneID vpcID
            = Return (None, None, [ListCall (list_input zoneID)])" by simp
next
  assume "ListVPCAssociationAuthorizations conn (list_input zoneID) = Inl e"
  with route53GetVPCAssociation_failed [OF assms]
  show "route53GetVPCAssociation conn zoneID vpcID
            = Return (None, Some e, [ListCall (list_input zoneID)])" by simp
qed

theorem route53GetVPCAssociation_scan_witness:
  "Validate (answering None
       (Inr (map Some ([\<lparr>VPCId = Some ''v1'', VPCRegion = Some ''us-east-1''\<rparr>]
                       @ \<lparr>VPCId = Some ''v2'', VPCRegion = Some ''us-west-2''\<rparr> # []))) None)
     (list_input ''Z1'') = None
   \<and> route53GetVPCAssociation (answering None
       (Inr (map Some ([\<lparr>VPCId = Some ''v1'', VPCRegion = Some ''us-east-1''\<rparr>]
                       @ \<lparr>VPCId = Some ''v2'', VPCRegion = Some ''us-west-2''\<rparr> # []))) None)
       ''Z1'' ''v2''
     = Return (Some \<lparr>VPCId = Some ''v2'', VPCRegion = Some ''us-west-2''\<rparr>, None,
               [ListCall (list_input ''Z1'')])
   \<and> route53GetVPCAssociation (answering None
       (Inr (map Some [\<lparr>VPCId = Some ''v1'', VPCRegion = Some ''us-east-1''\<rparr>,
                       \<lparr>VPCId = Some ''v2'', VPCRegion = Some ''us-west-2''\<rparr>])) None)
       ''Z1'' ''v3''
     = Return (None, None, [ListCall (list_input ''Z1'')])
   \<and> route53GetVPCAssociation (answering None (Inl (OtherErr ''connection reset'')) None)
       ''Z1'' ''v2''
     = Return (None, Some (OtherErr ''connection reset''), [ListCall (list_input ''Z1'')])"
proof -
  let ?v1 = "\<lparr>VPCId = Some ''v1'', VPCRegion = Some ''us-east-1''\<rparr>"
  let ?v2 = "\<lparr>VPCId = Some ''v2'', VPCRegion = Some ''us-west-2''\<rparr>"
  let ?c = "answering None (Inr (map Some ([?v1] @ ?v2 # []))) None"
  let ?c' = "answering None (Inr (map Some [?v1, ?v2])) None"
  let ?f = "answering None (Inl (OtherErr ''connection reset'')) None"
  have valid: "Validate ?c (list_input ''Z1'') = None" "Validate ?c' (list_input ''Z1'') = None"
    "Validate ?f (list_input ''Z1'') = None"
    by (simp_all add: answering_def)
  have found: "route53GetVPCAssociation ?c ''Z1'' ''v2''
      = Return (Some ?v2, None, [ListCall (list_input ''Z1'')])"
    using route53GetVPCAssociation_scan [OF valid(1), of "[?v1]" ?v2 "[]" "''v2''"]
    by (simp add: answering_def aws_StringValue_def)
  have absent: "route53GetVPCAssociation ?c' ''Z1'' ''v3''
      = Return (None, None, [ListCall (list_input ''Z1'')])"
    using route53GetVPCAssociation_scan [OF valid(2), of _ _ _ "''v3''" "[?v1, ?v2]"]
    by (simp add: answering_def aws_StringValue_def)
  have failed: "route53GetVPCAssociation ?f ''Z1'' ''v2''
      = Return (None, Some (OtherErr ''connection reset''), [ListCall (list_input ''Z1'')])"
    using route53GetVPCAssociation_scan [OF valid(3), of _ _ _ _ _ "OtherErr ''connection reset''"]
    by (simp add: answering_def)
  from valid(1) found absent failed show ?thesis by simp
qed

section \<open>Properties of the handlers of the VPC association authorization\<close>

text \<open>
  C4. Error propagation on delete. The claim is that Delete, once the identifier has
  parsed, wraps and returns an error of the remote deletion call. The code does not: it
  assigns the error and returns nil. For every identifier that parses and every error
  the remote call returns, Delete issues the call and returns no error.
\<close>

theorem Delete_discards_remote_error:
  assumes "resourceAwsRoute53VPCAssociationAuthorizationParseId (Id d) = (zoneID, vpcID, None)"
    and "DeleteVPCAssociationAuthorization (r53conn meta)
           \<lparr>Delete_HostedZoneId = Some zoneID,
            Delete_VPC = Some \<lparr>VPCId = Some vpcID, VPCRegion = Some (vpc_region d)\<rparr>\<rparr> = Some e"
  shows "resourceAwsRoute53CreateVPCAssociationAuthorizationDelete d meta =
           Return (d, [DeleteCall \<lparr>Delete_HostedZoneId = Some zoneID,
                         Delete_VPC = Some \<lparr>VPCId = Some vpcID, VPCRegion = Some (vpc_region d)\<rparr>\<rparr>],
                   None)"
  using assms
  by (simp add: resourceAwsRoute53CreateVPCAssociationAuthorizationDelete_def aws_String_def)

theorem Delete_discards_remote_error_witness:
  "resourceAwsRoute53VPCAssociationAuthorizationParseId ''Z1:V1'' = (''Z1'', ''V1'', None)
   \<and> DeleteVPCAssociationAuthorization
        (r53conn (client (answering None (Inr []) (Some (AWSErr ''AccessDenied'' ''not allowed'')))))
        \<lparr>Delete_HostedZoneId = Some ''Z1'',
         Delete_VPC = Some \<lparr>VPCId = Some ''V1'', VPCRegion = Some ''us-east-1''\<rparr>\<rparr>
      = Some (AWSErr ''AccessDenied'' ''not allowed'')
   \<and> resourceAwsRoute53CreateVPCAssociationAuthorizationDelete
        \<lparr>Id = ''Z1:V1'', zone_id = ''Z1'', vpc_id = ''V1'', vpc_region = ''us-east-1''\<rparr>
        (client (answering None (Inr []) (Some (AWSErr ''AccessDenied'' ''not allowed''))))
      = Return (\<lparr>Id = ''Z1:V1'', zone_id = ''Z1'', vpc_id = ''V1'', vpc_region = ''us-east-1''\<rparr>,
                [DeleteCall \<lparr>Delete_HostedZoneId = Some ''Z1'',
                   Delete_VPC = Some \<lparr>VPCId = Some ''V1'', VPCRegion = Some ''us-east-1''\<rparr>\<rparr>],
                None)"
proof -
  let ?d = "\<lparr>Id = ''Z1:V1'', zone_id = ''Z1'', vpc_id = ''V1'', vpc_region = ''us-east-1''\<rparr>"
  let ?m = "client (answering None (Inr []) (Some (AWSErr ''AccessDenied'' ''not allowed'')))"
  have p: "resourceAwsRoute53VPCAssociationAuthorizationParseId (Id ?d) = (''Z1'', ''V1'', None)"
    by (simp add: resourceAwsRoute53VPCAssociationAuthorizationParseId_def)
  have r: "DeleteVPCAssociationAuthorization (r53conn ?m)
        \<lparr>Delete_HostedZoneId = Some ''Z1'',
         Delete_VPC = Some \<lparr>VPCId = Some ''V1'', VPCRegion = Some (vpc_region ?d)\<rparr>\<rparr>
      = Some (AWSErr ''AccessDenied'' ''not allowed'')"
    by (simp add: client_def answering_def)
  from Delete_discards_remote_error [OF p r] p r show ?thesis by simp
qed

lemma strings_Contains_empty: "strings_Contains m [] = True"
  by (cases m) simp_all

lemma Read_parsed:
  "resourceAwsRoute53VPCAssociationAuthorizationParseId (Id d) = (zoneID, vpcID, None) \<Longrightarrow>
   route53GetVPCAssociation (r53conn meta) zoneID vpcID = Return (vpc, err, calls) \<Longrightarrow>
     resourceAwsRoute53CreateVPCAssociationAuthorizationRead d meta =
       (if isAWSErr err ErrCodeNoSuchHostedZone []
        then Return (d\<lparr>Id := []\<rparr>, calls, None)
        else (case err of
                Some e \<Rightarrow>
                  Return (d, calls,
                    Some (Errorf
                      ''error getting Route 53 VPC (%s) Association Authorization for Hosted Zone (%s): %s''
                      [ArgS vpcID, ArgS zoneID, ArgE e]))
              | None \<Rightarrow>
                  (case vpc of
                     None \<Rightarrow> Return (d\<lparr>Id := []\<rparr>, calls, None)
                   | Some v \<Rightarrow>
                       Return (d\<lparr>vpc_id := aws_StringValue (VPCId v),
                                 vpc_region := aws_StringValue (VPCRegion v),
                                 zone_id := zoneID\<rparr>,
                               calls, None))))"
  by (simp add: resourceAwsRoute53CreateVPCAssociationAuthorizationRead_def)

lemma Read_absent:
  assumes parsed: "resourceAwsRoute53VPCAssociationAuthorizationParseId (Id d) = (zoneID, vpcID, None)"
    and valid: "Validate (r53conn meta) (list_input zoneID) = None"
    and absent:
      "(\<exists>msg. ListVPCAssociationAuthorizations (r53conn meta) (list_input zoneID)
                = Inl (AWSErr ErrCodeNoSuchHostedZone msg))
       \<or> (\<exists>vpcs. ListVPCAssociationAuthorizations (r53conn meta) (list_input zoneID)
                    = Inr (map Some vpcs)
                 \<and> (\<forall>u\<in>set vpcs. aws_StringValue (VPCId u) \<noteq> vpcID))"
  shows "resourceAwsRoute53CreateVPCAssociationAuthorizationRead d meta
           = Return (d\<lparr>Id := []\<rparr>, [ListCall (list_input zoneID)], None)"
  using absent
proof
  assume "\<exists>msg. ListVPCAssociationAuthorizations (r53conn meta) (list_input zoneID)
              = Inl (AWSErr ErrCodeNoSuchHostedZone msg)"
  then obtain msg where "ListVPCAssociationAuthorizations (r53conn meta) (list_input zoneID)
              = Inl (AWSErr ErrCodeNoSuchHostedZone msg)" ..
  from route53GetVPCAssociation_failed [OF valid this]
  have "route53GetVPCAssociation (r53conn meta) zoneID vpcID =
          Return (None, Some (AWSErr ErrCodeNoSuchHostedZone msg), [ListCall (list_input zoneID)])" .
  from Read_parsed [OF parsed this] show ?thesis
    by (simp add: isAWSErr_def strings_Contains_empty)
next
  assume "\<exists>vpcs. ListVPCAssociationAuthorizations (r53conn meta) (list_input zoneID)
                  = Inr (map Some vpcs)
               \<and> (\<forall>u\<in>set vpcs. aws_StringValue (VPCId u) \<noteq> vpcID)"
  then obtain vpcs where l: "ListVPCAssociationAuthorizations (r53conn meta) (list_input zoneID)
                  = Inr (map Some vpcs)"
    and n: "\<forall>u\<in>set vpcs. aws_StringValue (VPCId u) \<noteq> vpcID" by blast
  from route53GetVPCAssociation_listed [OF valid l, of vpcID] scan_VPCs_none [OF n]
  have "route53GetVPCAssociation (r53conn meta) zoneID vpcID =
          Return (None, None, [ListCall (list_input zoneID)])" by simp
  from Read_parsed [OF parsed this] show ?thesis
    by (simp add: isAWSErr_def)
qed

lemma Refresh_blank: "Id s = [] \<Longrightarrow> Refresh read s meta = Return (None, [], None)"
  by (simp add: Refresh_def)

lemma Refresh_dropped:
  "Id s \<noteq> [] \<Longrightarrow> read s meta = Return (d, calls, err) \<Longrightarrow> Id d = [] \<Longrightarrow>
     Refresh read s meta = Return (None, calls, err)"
  by (simp add: Refresh_def)

text \<open>
  C5. Not found on read, twice. Take a stored identifier that decodes, and two reads of a
  resource that carries it, each against a remote that is asked (the list input passes
  validation) and reports absence: the hosted zone does not exist, or no entry of the
  list has the VPC identifier. Each read issues the one list call, clears the identifier
  and returns no error. Through the SDK's refresh the first read drops the resource from
  the state, and a refresh of the resource once it is cleared calls nothing, leaves the
  state empty and returns no error.
\<close>

theorem Read_not_found_idempotent:
  assumes decoded:
      "resourceAwsRoute53VPCAssociationAuthorizationParseId ident = (zoneID, vpcID, None)"
    and stored: "Id d1 = ident" "Id d2 = ident"
    and asked1: "Validate (r53conn meta1) (list_input zoneID) = None"
    and absent1:
      "(\<exists>msg. ListVPCAssociationAuthorizations (r53conn meta1) (list_input zoneID)
                = Inl (AWSErr ErrCodeNoSuchHostedZone msg))
       \<or> (\<exists>vpcs. ListVPCAssociationAuthorizations (r53conn meta1) (list_input zoneID)
                    = Inr (map Some vpcs)
                 \<and> (\<forall>u\<in>set vpcs. aws_StringValue (VPCId u) \<noteq> vpcID))"
    and asked2: "Validate (r53conn meta2) (list_input zoneID) = None"
    and absent2:
      "(\<exists>msg. ListVPCAssociationAuthorizations (r53conn meta2) (list_input zoneID)
                = Inl (AWSErr ErrCodeNoSuchHostedZone msg))
       \<or> (\<exists>vpcs. ListVPCAssociationAuthorizations (r53conn meta2) (list_input zoneID)
                    = Inr (map Some vpcs)
                 \<and> (\<forall>u\<in>set vpcs. aws_StringValue (VPCId u) \<noteq> vpcID))"
  shows "resourceAwsRoute53CreateVPCAssociationAuthorizationRead d1 meta1
           = Return (d1\<lparr>Id := []\<rparr>, [ListCall (list_input zoneID)], None)
       \<and> resourceAwsRoute53CreateVPCAssociationAuthorizationRead d2 meta2
           = Return (d2\<lparr>Id := []\<rparr>, [ListCall (list_input zoneID)], None)
       \<and> Refresh resourceAwsRoute53CreateVPCAssociationAuthorizationRead d1 meta1
           = Return (None, [ListCall (list_input zoneID)], None)
       \<and> Refresh resourceAwsRoute53CreateVPCAssociationAuthorizationRead (d1\<lparr>Id := []\<rparr>) meta2
           = Return (None, [], None)"
proof -
  from decoded stored have p1:
    "resourceAwsRoute53VPCAssociationAuthorizationParseId (Id d1) = (zoneID, vpcID, None)"
    and p2: "resourceAwsRoute53VPCAssociationAuthorizationParseId (Id d2) = (zoneID, vpcID, None)"
    by simp_all
  have r1: "resourceAwsRoute53CreateVPCAssociationAuthorizationRead d1 meta1
           = Return (d1\<lparr>Id := []\<rparr>, [ListCall (list_input zoneID)], None)"
    by (rule Read_absent [OF p1 asked1 absent1])
  have r2: "resourceAwsRoute53CreateVPCAssociationAuthorizationRead d2 meta2
           = Return (d2\<lparr>Id := []\<rparr>, [ListCall (list_input zoneID)], None)"
    by (rule Read_absent [OF p2 asked2 absent2])
  from ParseId_None [OF decoded] stored have "Id d1 \<noteq> []" by simp
  with r1 have f1: "Refresh resourceAwsRoute53CreateVPCAssociationAuthorizationRead d1 meta1
           = Return (None, [ListCall (list_input zoneID)], None)"
    by (simp add: Refresh_dropped
          [of d1 resourceAwsRoute53CreateVPCAssociationAuthorizationRead meta1 "d1\<lparr>Id := []\<rparr>"])
  have f2: "Refresh resourceAwsRoute53CreateVPCAssociationAuthorizationRead (d1\<lparr>Id := []\<rparr>) meta2
           = Return (None, [], None)"
    by (rule Refresh_blank) simp
  from r1 r2 f1 f2 show ?thesis by blast
qed

theorem Read_not_found_idempotent_witness:
  "resourceAwsRoute53VPCAssociationAuthorizationParseId ''Z1:V1'' = (''Z1'', ''V1'', None)
   \<and> resourceAwsRoute53CreateVPCAssociationAuthorizationRead
        \<lparr>Id = ''Z1:V1'', zone_id = ''Z1'', vpc_id = ''V1'', vpc_region = ''us-east-1''\<rparr>
        (client (answering None (Inl (AWSErr ErrCodeNoSuchHostedZone ''no such zone'')) None))
      = Return (\<lparr>Id = [], zone_id = ''Z1'', vpc_id = ''V1'', vpc_region = ''us-east-1''\<rparr>,
                [ListCall (list_input ''Z1'')], None)
   \<and> resourceAwsRoute53CreateVPCAssociationAuthorizationRead
        \<lparr>Id = ''Z1:V1'', zone_id = ''Z1'', vpc_id = ''V1'', vpc_region = ''us-east-1''\<rparr>
        (client (answering None
           (Inr (map Some [\<lparr>VPCId = Some ''V2'', VPCRegion = Some ''us-east-1''\<rparr>])) None))
      = Return (\<lparr>Id = [], zone_id = ''Z1'', vpc_id = ''V1'', vpc_region = ''us-east-1''\<rparr>,
                [ListCall (list_input ''Z1'')], None)
   \<and> Refresh resourceAwsRoute53CreateVPCAssociationAuthorizationRead
        \<lparr>Id = ''Z1:V1'', zone_id = ''Z1'', vpc_id = ''V1'', vpc_region = ''us-east-1''\<rparr>
        (client (answering None (Inl (AWSErr ErrCodeNoSuchHostedZone ''no such zone'')) None))
      = Return (None, [ListCall (list_input ''Z1'')], None)
   \<and> Refresh resourceAwsRoute53CreateVPCAssociationAuthorizationRead
        \<lparr>Id = [], zone_id = ''Z1'', vpc_id = ''V1'', vpc_region = ''us-east-1''\<rparr>
        (client (answering None
           (Inr (map Some [\<lparr>VPCId = Some ''V2'', VPCRegion = Some ''us-east-1''\<rparr>])) None))
      = Return (None, [], None)"
proof -
  let ?d = "\<lparr>Id = ''Z1:V1'', zone_id = ''Z1'', vpc_id = ''V1'', vpc_region = ''us-east-1''\<rparr>"
  let ?gone = "client (answering None (Inl (AWSErr ErrCodeNoSuchHostedZone ''no such zone'')) None)"
  let ?other = "client (answering None
           (Inr (map Some [\<lparr>VPCId = Some ''V2'', VPCRegion = Some ''us-east-1''\<rparr>])) None)"
  have p: "resourceAwsRoute53VPCAssociationAuthorizationParseId ''Z1:V1'' = (''Z1'', ''V1'', None)"
    by (simp add: resourceAwsRoute53VPCAssociationAuthorizationParseId_def)
  have s: "Id ?d = ''Z1:V1''" by simp
  have v: "Validate (r53conn ?gone) (list_input ''Z1'') = None"
    "Validate (r53conn ?other) (list_input ''Z1'') = None"
    by (simp_all add: client_def answering_def)
  have a1: "(\<exists>msg. ListVPCAssociationAuthorizations (r53conn ?gone) (list_input ''Z1'')
                = Inl (AWSErr ErrCodeNoSuchHostedZone msg))
       \<or> (\<exists>vpcs. ListVPCAssociationAuthorizations (r53conn ?gone) (list_input ''Z1'')
                    = Inr (map Some vpcs)
                 \<and> (\<forall>u\<in>set vpcs. aws_StringValue (VPCId u) \<noteq> ''V1''))"
    by (simp add: client_def answering_def)
  have "ListVPCAssociationAuthorizations (r53conn ?other) (list_input ''Z1'')
          = Inr (map Some [\<lparr>VPCId = Some ''V2'', VPCRegion = Some ''us-east-1''\<rparr>])
        \<and> (\<forall>u\<in>set [\<lparr>VPCId = Some ''V2'', VPCRegion = Some ''us-east-1''\<rparr>].
              aws_StringValue (VPCId u) \<noteq> ''V1'')"
    by (simp add: client_def answering_def aws_StringValue_def)
  then have a2: "(\<exists>msg. ListVPCAssociationAuthorizations (r53conn ?other) (list_input ''Z1'')
                = Inl (AWSErr ErrCodeNoSuchHostedZone msg))
       \<or> (\<exists>vpcs. ListVPCAssociationAuthorizations (r53conn ?other) (list_input ''Z1'')
                    = Inr (map Some vpcs)
                 \<and> (\<forall>u\<in>set vpcs. aws_StringValue (VPCId u) \<noteq> ''V1''))"
    by blast
  from Read_not_found_idempotent [OF p s s v(1) a1 v(2) a2] p
  show ?thesis by simp
qed

lemma create_input_eq:
  "create_input d meta =
     \<lparr>Create_HostedZoneId = Some (zone_id d),
      Create_VPC = Some \<lparr>VPCId = Some (vpc_id d),
                         VPCRegion = Some (if vpc_region d \<noteq> [] then vpc_region d
                                           else region meta)\<rparr>\<rparr>"
  by (simp add: create_input_def aws_String_def)

text \<open>
  C6. Create: the input of the authorize call carries the configured zone and VPC
  identifiers, and as \<open>VPCRegion\<close> the configured \<open>vpc_region\<close> when that is not empty and
  the region of the client otherwise. When the call fails, Create returns the wrapped
  error and the identifier is untouched. When it succeeds, Create is Read run on the
  resource data whose identifier has been set to \<open>zone_id:vpc_id\<close>, after the one create
  call.
\<close>

theorem Create_region_and_identifier:
  "create_input d meta =
     \<lparr>Create_HostedZoneId = Some (zone_id d),
      Create_VPC = Some \<lparr>VPCId = Some (vpc_id d),
                         VPCRegion = Some (if vpc_region d \<noteq> [] then vpc_region d
                                           else region meta)\<rparr>\<rparr>
   \<and> (\<forall>e. CreateVPCAssociationAuthorization (r53conn meta) (create_input d meta) = Some e \<longrightarrow>
         resourceAwsRoute53CreateVPCAssociationAuthorizationCreate d meta =
           Return (d, [CreateCall (create_input d meta)],
             Some (Errorf ''Error creating VPC Association Authorization: %s'' [ArgE e])))
   \<and> (CreateVPCAssociationAuthorization (r53conn meta) (create_input d meta) = None \<longrightarrow>
         resourceAwsRoute53CreateVPCAssociationAuthorizationCreate d meta =
           (case resourceAwsRoute53CreateVPCAssociationAuthorizationRead
                   (d\<lparr>Id := zone_id d @ '':'' @ vpc_id d\<rparr>) meta of
              Panic \<Rightarrow> Panic
            | Return (d', calls, err) \<Rightarrow>
                Return (d', CreateCall (create_input d meta) # calls, err)))"
proof (intro conjI allI impI)
  show "create_input d meta =
     \<lparr>Create_HostedZoneId = Some (zone_id d),
      Create_VPC = Some \<lparr>VPCId = Some (vpc_id d),
                         VPCRegion = Some (if vpc_region d \<noteq> [] then vpc_region d
                                           else region meta)\<rparr>\<rparr>"
    by (rule create_input_eq)
next
  fix e
  assume "CreateVPCAssociationAuthorization (r53conn meta) (create_input d meta) = Some e"
  then show "resourceAwsRoute53CreateVPCAssociationAuthorizationCreate d meta =
           Return (d, [CreateCall (create_input d meta)],
             Some (Errorf ''Error creating VPC Association Authorization: %s'' [ArgE e]))"
    by (simp add: resourceAwsRoute53CreateVPCAssociationAuthorizationCreate_def)
next
  assume ok: "CreateVPCAssociationAuthorization (r53conn meta) (create_input d meta) = None"
  have "Create_HostedZoneId (create_input d meta) = Some (zone_id d)"
    "Create_VPC (create_input d meta) = Some \<lparr>VPCId = Some (vpc_id d),
                         VPCRegion = Some (if vpc_region d \<noteq> [] then vpc_region d
                                           else region meta)\<rparr>"
    by (simp_all add: create_input_eq)
  with ok show "resourceAwsRoute53CreateVPCAssociationAuthorizationCreate d meta =
           (case resourceAwsRoute53CreateVPCAssociationAuthorizationRead
                   (d\<lparr>Id := zone_id d @ '':'' @ vpc_id d\<rparr>) meta of
              Panic \<Rightarrow> Panic
            | Return (d', calls, err) \<Rightarrow>
                Return (d', CreateCall (create_input d meta) # calls, err))"
    by (simp add: resourceAwsRoute53CreateVPCAssociationAuthorizationCreate_def Sprintf_id_def)
qed

theorem Create_region_and_identifier_witness:
  "create_input \<lparr>Id = [], zone_id = ''Z1'', vpc_id = ''V1'', vpc_region = []\<rparr>
      (client (answering None
         (Inr [Some \<lparr>VPCId = Some ''V1'', VPCRegion = Some ''us-east-1''\<rparr>]) None))
     = \<lparr>Create_HostedZoneId = Some ''Z1'',
        Create_VPC = Some \<lparr>VPCId = Some ''V1'', VPCRegion = Some ''us-east-1''\<rparr>\<rparr>
   \<and> resourceAwsRoute53CreateVPCAssociationAuthorizationCreate
        \<lparr>Id = [], zone_id = ''Z1'', vpc_id = ''V1'', vpc_region = []\<rparr>
        (client (answering None
           (Inr [Some \<lparr>VPCId = Some ''V1'', VPCRegion = Some ''us-east-1''\<rparr>]) None))
     = Return (\<lparr>Id = ''Z1:V1'', zone_id = ''Z1'', vpc_id = ''V1'', vpc_region = ''us-east-1''\<rparr>,
               [CreateCall \<lparr>Create_HostedZoneId = Some ''Z1'',
                  Create_VPC = Some \<lparr>VPCId = Some ''V1'', VPCRegion = Some ''us-east-1''\<rparr>\<rparr>,
                ListCall (list_input ''Z1'')],
               None)"
proof -
  let ?d = "\<lparr>Id = [], zone_id = ''Z1'', vpc_id = ''V1'', vpc_region = []\<rparr>"
  let ?m = "client (answering None
         (Inr [Some \<lparr>VPCId = Some ''V1'', VPCRegion = Some ''us-east-1''\<rparr>]) None)"
  have ok: "CreateVPCAssociationAuthorization (r53conn ?m) (create_input ?d ?m) = None"
    by (simp add: client_def answering_def)
  have inp: "create_input ?d ?m = \<lparr>Create_HostedZoneId = Some ''Z1'',
        Create_VPC = Some \<lparr>VPCId = Some ''V1'', VPCRegion = Some ''us-east-1''\<rparr>\<rparr>"
    using Create_region_and_identifier [of ?d ?m] by (simp add: client_def)
  have rd: "resourceAwsRoute53CreateVPCAssociationAuthorizationRead
          (?d\<lparr>Id := zone_id ?d @ '':'' @ vpc_id ?d\<rparr>) ?m
        = Return (\<lparr>Id = ''Z1:V1'', zone_id = ''Z1'', vpc_id = ''V1'', vpc_region = ''us-east-1''\<rparr>,
                  [ListCall (list_input ''Z1'')], None)"
    by (simp add: resourceAwsRoute53CreateVPCAssociationAuthorizationRead_def
        resourceAwsRoute53VPCAssociationAuthorizationParseId_def
        route53GetVPCAssociation_def client_def answering_def list_input_def aws_String_def
        aws_StringValue_def isAWSErr_def)
  from Create_region_and_identifier [of ?d ?m] ok
  have "resourceAwsRoute53CreateVPCAssociationAuthorizationCreate ?d ?m =
           (case resourceAwsRoute53CreateVPCAssociationAuthorizationRead
                   (?d\<lparr>Id := zone_id ?d @ '':'' @ vpc_id ?d\<rparr>) ?m of
              Panic \<Rightarrow> Panic
            | Return (d', calls, err) \<Rightarrow>
                Return (d', CreateCall (create_input ?d ?m) # calls, err))"
    by blast
  with rd inp show ?thesis by simp
qed

section \<open>Properties of expand and flatten\<close>

lemma nonzero_int_simps:
  "nonzero_int VNil = None" "nonzero_int (VInt 0) = None"
  "n \<noteq> 0 \<Longrightarrow> nonzero_int (VInt n) = Some n"
  by (simp_all add: nonzero_int_def aws_Int64_def)

lemma nonempty_string_simps:
  "nonempty_string VNil = None" "nonempty_string (VStr []) = None"
  "s \<noteq> [] \<Longrightarrow> nonempty_string (VStr s) = Some s"
  by (simp_all add: nonempty_string_def aws_String_def)

lemma expand_block:
  assumes "p ''auto_scaling_group_arn'' = Some (VStr arn)"
    and "p ''managed_termination_protection'' = Some (VStr mtp)"
    and "p ''managed_scaling'' = Some (VList (VMap ms # rest))"
  shows "expandAutoScalingGroupProvider (VList (VMap p # others)) =
     Return (Some
       \<lparr>AutoScalingGroupArn = Some arn,
        ManagedScaling =
          Some \<lparr>MaximumScalingStepSize = nonzero_int (index_map ms ''maximum_scaling_step_size''),
                MinimumScalingStepSize = nonzero_int (index_map ms ''minimum_scaling_step_size''),
                Status = nonempty_string (index_map ms ''status''),
                TargetCapacity = nonzero_int (index_map ms ''target_capacity'')\<rparr>,
        ManagedTerminationProtection = (if mtp = [] then None else Some mtp)\<rparr>)"
  using assms
  by (simp add: expandAutoScalingGroupProvider_def index_map_def aws_String_def)

lemma flatten_present:
  assumes "ManagedScaling prov = Some m"
  shows "flattenAutoScalingGroupProvider (Some prov) =
     Return (Some
       [[''auto_scaling_group_arn'' \<mapsto> VStr (aws_StringValue (AutoScalingGroupArn prov)),
         ''managed_termination_protection'' \<mapsto>
            VStr (aws_StringValue (ManagedTerminationProtection prov)),
         ''managed_scaling'' \<mapsto>
            VMapSlice
              [[''maximum_scaling_step_size'' \<mapsto> VInt64 (aws_Int64Value (MaximumScalingStepSize m)),
                ''minimum_scaling_step_size'' \<mapsto> VInt64 (aws_Int64Value (MinimumScalingStepSize m)),
                ''status'' \<mapsto> VStr (aws_StringValue (Status m)),
                ''target_capacity'' \<mapsto> VInt64 (aws_Int64Value (TargetCapacity m))]]]])"
  using assms by (simp add: flattenAutoScalingGroupProvider_def)

lemma flatten_absent:
  "ManagedScaling prov = None \<Longrightarrow> flattenAutoScalingGroupProvider (Some prov) = Panic"
  by (simp add: flattenAutoScalingGroupProvider_def)

lemma flatten_nil: "flattenAutoScalingGroupProvider None = Return None"
  by (simp add: flattenAutoScalingGroupProvider_def)

text \<open>
  C7. Flatten/expand asymmetry. Expanding a configured block that has a managed scaling
  block gives a request whose \<open>ManagedScaling\<close> is set, in which \<open>TargetCapacity\<close> is nil
  when \<open>target_capacity\<close> is unset (absent or zero), and likewise the two step sizes
  (zero), the status (empty) and the managed termination protection (empty); a non-zero
  \<open>target_capacity\<close> is kept. Flattening a response with a managed scaling block gives
  one map whose \<open>managed_scaling\<close> holds one map with all four leaves, each the remote's
  value; a \<open>TargetCapacity\<close> of 100 gives \<open>target_capacity = 100\<close>.
\<close>

theorem expand_flatten_asymmetry:
  assumes "p ''auto_scaling_group_arn'' = Some (VStr arn)"
    and "p ''managed_termination_protection'' = Some (VStr mtp)"
    and "p ''managed_scaling'' = Some (VList (VMap ms # rest))"
  shows
    "(\<exists>prov m. expandAutoScalingGroupProvider (VList (VMap p # others)) = Return (Some prov)
        \<and> ManagedScaling prov = Some m
        \<and> (ms ''target_capacity'' = None \<or> ms ''target_capacity'' = Some (VInt 0)
             \<longrightarrow> TargetCapacity m = None)
        \<and> (ms ''maximum_scaling_step_size'' = None
             \<or> ms ''maximum_scaling_step_size'' = Some (VInt 0)
             \<longrightarrow> MaximumScalingStepSize m = None)
        \<and> (ms ''minimum_scaling_step_size'' = None
             \<or> ms ''minimum_scaling_step_size'' = Some (VInt 0)
             \<longrightarrow> MinimumScalingStepSize m = None)
        \<and> (ms ''status'' = None \<or> ms ''status'' = Some (VStr []) \<longrightarrow> Status m = None)
        \<and> (mtp = [] \<longrightarrow> ManagedTerminationProtection prov = None)
        \<and> (\<forall>n. n \<noteq> 0 \<and> ms ''target_capacity'' = Some (VInt n) \<longrightarrow> TargetCapacity m = Some n))
   \<and> (\<forall>resp rm. ManagedScaling resp = Some rm \<longrightarrow>
        (\<exists>q fs. flattenAutoScalingGroupProvider (Some resp) = Return (Some [q])
           \<and> q ''managed_scaling'' = Some (VMapSlice [fs])
           \<and> fs ''target_capacity'' = Some (VInt64 (aws_Int64Value (TargetCapacity rm)))
           \<and> fs ''maximum_scaling_step_size''
               = Some (VInt64 (aws_Int64Value (MaximumScalingStepSize rm)))
           \<and> fs ''minimum_scaling_step_size''
               = Some (VInt64 (aws_Int64Value (MinimumScalingStepSize rm)))
           \<and> fs ''status'' = Some (VStr (aws_StringValue (Status rm)))
           \<and> (TargetCapacity rm = Some 100 \<longrightarrow> fs ''target_capacity'' = Some (VInt64 100))))"
proof (rule conjI)
  let ?m = "\<lparr>MaximumScalingStepSize = nonzero_int (index_map ms ''maximum_scaling_step_size''),
             MinimumScalingStepSize = nonzero_int (index_map ms ''minimum_scaling_step_size''),
             Status = nonempty_string (index_map ms ''status''),
             TargetCapacity = nonzero_int (index_map ms ''target_capacity'')\<rparr>"
  let ?prov = "\<lparr>AutoScalingGroupArn = Some arn, ManagedScaling = Some ?m,
                ManagedTerminationProtection = (if mtp = [] then None else Some mtp)\<rparr>"
  have e: "expandAutoScalingGroupProvider (VList (VMap p # others)) = Return (Some ?prov)"
    by (rule expand_block [OF assms])
  have leaves:
    "ms ''target_capacity'' = None \<or> ms ''target_capacity'' = Some (VInt 0)
       \<longrightarrow> TargetCapacity ?m = None"
    "ms ''maximum_scaling_step_size'' = None \<or> ms ''maximum_scaling_step_size'' = Some (VInt 0)
       \<longrightarrow> MaximumScalingStepSize ?m = None"
    "ms ''minimum_scaling_step_size'' = None \<or> ms ''minimum_scaling_step_size'' = Some (VInt 0)
       \<longrightarrow> MinimumScalingStepSize ?m = None"
    "ms ''status'' = None \<or> ms ''status'' = Some (VStr []) \<longrightarrow> Status ?m = None"
    "mtp = [] \<longrightarrow> ManagedTerminationProtection ?prov = None"
    "\<forall>n. n \<noteq> 0 \<and> ms ''target_capacity'' = Some (VInt n) \<longrightarrow> TargetCapacity ?m = Some n"
    by (auto simp: index_map_def nonzero_int_simps nonempty_string_simps)
  have "ManagedScaling ?prov = Some ?m" by simp
  with e leaves show "\<exists>prov m. expandAutoScalingGroupProvider (VList (VMap p # others)) = Return (Some prov)
        \<and> ManagedScaling prov = Some m
        \<and> (ms ''target_capacity'' = None \<or> ms ''target_capacity'' = Some (VInt 0)
             \<longrightarrow> TargetCapacity m = None)
        \<and> (ms ''maximum_scaling_step_size'' = None
             \<or> ms ''maximum_scaling_step_size'' = Some (VInt 0)
             \<longrightarrow> MaximumScalingStepSize m = None)
        \<and> (ms ''minimum_scaling_step_size'' = None
             \<or> ms ''minimum_scaling_step_size'' = Some (VInt 0)
             \<longrightarrow> MinimumScalingStepSize m = None)
        \<and> (ms ''status'' = None \<or> ms ''status'' = Some (VStr []) \<longrightarrow> Status m = None)
        \<and> (mtp = [] \<longrightarrow> ManagedTerminationProtection prov = None)
        \<and> (\<forall>n. n \<noteq> 0 \<and> ms ''target_capacity'' = Some (VInt n) \<longrightarrow> TargetCapacity m = Some n)"
    by blast
next
  show "\<forall>resp rm. ManagedScaling resp = Some rm \<longrightarrow>
        (\<exists>q fs. flattenAutoScalingGroupProvider (Some resp) = Return (Some [q])
           \<and> q ''managed_scaling'' = Some (VMapSlice [fs])
           \<and> fs ''target_capacity'' = Some (VInt64 (aws_Int64Value (TargetCapacity rm)))
           \<and> fs ''maximum_scaling_step_size''
               = Some (VInt64 (aws_Int64Value (MaximumScalingStepSize rm)))
           \<and> fs ''minimum_scaling_step_size''
               = Some (VInt64 (aws_Int64Value (MinimumScalingStepSize rm)))
           \<and> fs ''status'' = Some (VStr (aws_StringValue (Status rm)))
           \<and> (TargetCapacity rm = Some 100 \<longrightarrow> fs ''target_capacity'' = Some (VInt64 100)))"
  proof (intro allI impI)
    fix resp :: AutoScalingGroupProvider and rm :: ManagedScaling
    assume "ManagedScaling resp = Some rm"
    from flatten_present [OF this] show "\<exists>q fs. flattenAutoScalingGroupProvider (Some resp) = Return (Some [q])
           \<and> q ''managed_scaling'' = Some (VMapSlice [fs])
           \<and> fs ''target_capacity'' = Some (VInt64 (aws_Int64Value (TargetCapacity rm)))
           \<and> fs ''maximum_scaling_step_size''
               = Some (VInt64 (aws_Int64Value (MaximumScalingStepSize rm)))
           \<and> fs ''minimum_scaling_step_size''
               = Some (VInt64 (aws_Int64Value (MinimumScalingStepSize rm)))
           \<and> fs ''status'' = Some (VStr (aws_StringValue (Status rm)))
           \<and> (TargetCapacity rm = Some 100 \<longrightarrow> fs ''target_capacity'' = Some (VInt64 100))"
      by (simp add: aws_Int64Value_def)
  qed
qed

theorem expand_flatten_asymmetry_witness:
  "(\<exists>prov m. expandAutoScalingGroupProvider (VList [VMap example_block]) = Return (Some prov)
      \<and> ManagedScaling prov = Some m
      \<and> TargetCapacity m = None
      \<and> MinimumScalingStepSize m = None
      \<and> ManagedTerminationProtection prov = None)
   \<and> (\<exists>q fs. flattenAutoScalingGroupProvider (Some example_response) = Return (Some [q])
      \<and> q ''managed_scaling'' = Some (VMapSlice [fs])
      \<and> fs ''target_capacity'' = Some (VInt64 100))"
proof -
  have h: "example_block ''auto_scaling_group_arn''
             = Some (VStr ''arn:aws:autoscaling:us-east-1:123456789012:asg/x'')"
    "example_block ''managed_termination_protection'' = Some (VStr [])"
    "example_block ''managed_scaling'' = Some (VList (VMap example_scaling # []))"
    by (simp_all add: example_block_def)
  have z: "example_scaling ''target_capacity'' = Some (VInt 0)"
    "example_scaling ''minimum_scaling_step_size'' = Some (VInt 0)"
    by (simp_all add: example_scaling_def)
  have r: "ManagedScaling example_response =
             Some \<lparr>MaximumScalingStepSize = Some 10000, MinimumScalingStepSize = Some 1,
                   Status = Some ''ENABLED'', TargetCapacity = Some 100\<rparr>"
    by (simp add: example_response_def)
  note t = expand_flatten_asymmetry [OF h, of "[]"]
  from t [THEN conjunct1] obtain prov m where
    e: "expandAutoScalingGroupProvider (VList [VMap example_block]) = Return (Some prov)"
      "ManagedScaling prov = Some m"
    and tc: "example_scaling ''target_capacity'' = None
       \<or> example_scaling ''target_capacity'' = Some (VInt 0)
       \<longrightarrow> TargetCapacity m = None"
    and mn: "example_scaling ''minimum_scaling_step_size'' = None
       \<or> example_scaling ''minimum_scaling_step_size'' = Some (VInt 0)
       \<longrightarrow> MinimumScalingStepSize m = None"
    and mtp: "[] = ([]::string) \<longrightarrow> ManagedTerminationProtection prov = None"
    by (elim exE conjE)
  from tc z(1) have "TargetCapacity m = None" by blast
  moreover from mn z(2) have "MinimumScalingStepSize m = None" by blast
  moreover from mtp have "ManagedTerminationProtection prov = None" by blast
  ultimately have first:
    "\<exists>prov m. expandAutoScalingGroupProvider (VList [VMap example_block]) = Return (Some prov)
      \<and> ManagedScaling prov = Some m
      \<and> TargetCapacity m = None
      \<and> MinimumScalingStepSize m = None
      \<and> ManagedTerminationProtection prov = None"
    using e by (intro exI conjI)
  from t [THEN conjunct2, rule_format, OF r] obtain q fs where
    f: "flattenAutoScalingGroupProvider (Some example_response) = Return (Some [q])"
      "q ''managed_scaling'' = Some (VMapSlice [fs])"
    and c: "TargetCapacity
        \<lparr>MaximumScalingStepSize = Some 10000, MinimumScalingStepSize = Some 1,
         Status = Some ''ENABLED'', TargetCapacity = Some 100\<rparr> = Some 100
       \<longrightarrow> fs ''target_capacity'' = Some (VInt64 100)"
    by (elim exE conjE)
  from c have "fs ''target_capacity'' = Some (VInt64 100)" by simp
  with f have second:
    "\<exists>q fs. flattenAutoScalingGroupProvider (Some example_response) = Return (Some [q])
      \<and> q ''managed_scaling'' = Some (VMapSlice [fs])
      \<and> fs ''target_capacity'' = Some (VInt64 100)"
    by (intro exI conjI)
  from first second show ?thesis ..
qed

text \<open>
  C8. Flatten is partial: it returns nil for a nil provider, it panics for every provider
  whose \<open>ManagedScaling\<close> is nil, and it returns a result for every provider whose
  \<open>ManagedScaling\<close> is set. So it does not panic exactly when the provider is nil or its
  \<open>ManagedScaling\<close> is not.
\<close>

theorem flatten_partial:
  "flattenAutoScalingGroupProvider None = Return None
   \<and> (ManagedScaling prov = None \<longrightarrow> flattenAutoScalingGroupProvider (Some prov) = Panic)
   \<and> (\<forall>m. ManagedScaling prov = Some m \<longrightarrow>
         (\<exists>r. flattenAutoScalingGroupProvider (Some prov) = Return (Some r)))
   \<and> ((flattenAutoScalingGroupProvider provider \<noteq> Panic)
        = (provider = None \<or> (\<exists>q m. provider = Some q \<and> ManagedScaling q = Some m)))"
proof (intro conjI allI impI)
  show "flattenAutoScalingGroupProvider None = Return None" by (rule flatten_nil)
next
  assume "ManagedScaling prov = None"
  then show "flattenAutoScalingGroupProvider (Some prov) = Panic" by (rule flatten_absent)
next
  fix m assume "ManagedScaling prov = Some m"
  from flatten_present [OF this]
  show "\<exists>r. flattenAutoScalingGroupProvider (Some prov) = Return (Some r)" by blast
next
  show "(flattenAutoScalingGroupProvider provider \<noteq> Panic)
        = (provider = None \<or> (\<exists>q m. provider = Some q \<and> ManagedScaling q = Some m))"
  proof (cases provider)
    case None
    then show ?thesis by (simp add: flatten_nil)
  next
    case (Some q)
    show ?thesis
    proof (cases "ManagedScaling q")
      case None
      with Some flatten_absent [of q] show ?thesis by simp
    next
      case (Some m)
      with \<open>provider = Some q\<close> flatten_present [of q m] show ?thesis by simp
    qed
  qed
qed

theorem flatten_partial_witness:
  "ManagedScaling \<lparr>AutoScalingGroupArn = Some ''arn:aws:autoscaling:us-east-1:123456789012:asg/x'',
                   ManagedScaling = None,
                   ManagedTerminationProtection = Some ''DISABLED''\<rparr> = None
   \<and> flattenAutoScalingGroupProvider
        (Some \<lparr>AutoScalingGroupArn = Some ''arn:aws:autoscaling:us-east-1:123456789012:asg/x'',
               ManagedScaling = None,
               ManagedTerminationProtection = Some ''DISABLED''\<rparr>) = Panic"
  using flatten_partial
    [of "\<lparr>AutoScalingGroupArn = Some ''arn:aws:autoscaling:us-east-1:123456789012:asg/x'',
          ManagedScaling = None,
          ManagedTerminationProtection = Some ''DISABLED''\<rparr>"]
  by simp

section \<open>Properties of the ECS capacity provider\<close>

text \<open>
  C9. Deleting an ECS capacity provider is a local no-op: the Delete the resource
  installs issues no remote call, returns no error and leaves the resource data as it
  is; the SDK then drops the resource from the state, with no call and no error.
\<close>

theorem Ecs_Delete_is_local_noop:
  "Delete resourceAwsEcsCapacityProvider d meta = Return (d, [], None)
   \<and> Apply_destroy resourceAwsEcsCapacityProvider d meta = Return (None, [], None)"
  by (simp add: resourceAwsEcsCapacityProvider_def schema_Noop_def Apply_destroy_def)

theorem Ecs_Delete_is_local_noop_witness:
  "Delete resourceAwsEcsCapacityProvider
      \<lparr>Id = ''arn:aws:ecs:us-east-1:123456789012:capacity-provider/cp1'', name = ''cp1''\<rparr>
      (client (answering None (Inr []) None))
     = Return (\<lparr>Id = ''arn:aws:ecs:us-east-1:123456789012:capacity-provider/cp1'', name = ''cp1''\<rparr>,
               [], None)
   \<and> Apply_destroy resourceAwsEcsCapacityProvider
      \<lparr>Id = ''arn:aws:ecs:us-east-1:123456789012:capacity-provider/cp1'', name = ''cp1''\<rparr>
      (client (answering None (Inr []) None))
     = Return (None, [], None)"
  using Ecs_Delete_is_local_noop
    [of "\<lparr>Id = ''arn:aws:ecs:us-east-1:123456789012:capacity-provider/cp1'', name = ''cp1''\<rparr>"
        "client (answering None (Inr []) None)"]
  by simp

text \<open>
  C10. Import: for every short name, the identifier the user supplied, the import handler
  sets \<open>name\<close> to it and the identifier to
  \<open>arn:partition:ecs:region:accountID:capacity-provider/name\<close>, built from the client's
  partition, region and account, and returns that one resource, no call issued and no
  error. It is the importer the resource installs.
\<close>

theorem Import_reconstructs_identifier:
  "resourceAwsEcsCapacityProviderImport d meta =
     Return ([d\<lparr>Id := ''arn:'' @ partition meta @ '':ecs:'' @ region meta @ '':'' @ accountid meta
                        @ '':capacity-provider/'' @ Id d,
                name := Id d\<rparr>],
             [], None)
   \<and> Importer_State resourceAwsEcsCapacityProvider = resourceAwsEcsCapacityProviderImport"
  by (simp add: resourceAwsEcsCapacityProviderImport_def ARN_String_def
        resourceAwsEcsCapacityProvider_def)

theorem Import_reconstructs_identifier_witness:
  "resourceAwsEcsCapacityProviderImport \<lparr>Id = ''cp1'', name = []\<rparr>
      (client (answering None (Inr []) None))
     = Return ([\<lparr>Id = ''arn:aws:ecs:us-east-1:123456789012:capacity-provider/cp1'',
                 name = ''cp1''\<rparr>], [], None)"
  using Import_reconstructs_identifier
    [of "\<lparr>Id = ''cp1'', name = []\<rparr>" "client (answering None (Inr []) None)"]
  by (simp add: client_def)

end
